theory Spec2Isabelle
  imports Main
begin

section \<open>Constants of \<^verbatim>\<open>qr.py\<close>\<close>

definition TAPE_HEIGHT :: int where "TAPE_HEIGHT = 76"
definition ELEMENT_GAP :: int where "ELEMENT_GAP = 6"
definition LABEL_GAP :: int where "LABEL_GAP = 1"
definition QR_VERSION :: nat where "QR_VERSION = 1"
definition QR_BOX_SIZE :: nat where "QR_BOX_SIZE = 2"
definition QR_BORDER :: nat where "QR_BORDER = 4"
definition FONT_SIZE :: nat where "FONT_SIZE = 32"
definition TEXT_LINE_SPACING :: int where "TEXT_LINE_SPACING = 28"
definition TEXT_START_Y :: int where "TEXT_START_Y = 38"
definition TEMP_CANVAS_WIDTH :: int where "TEMP_CANVAS_WIDTH = 90"

section \<open>Python string and integer primitives used by the script\<close>

text \<open>
  Strings are lists of 8-bit characters, so the model covers ASCII text. Python's
  \<^verbatim>\<open>s.split(sep)\<close> with a one-character separator never returns an empty list:
  the empty string gives one empty part.
\<close>

fun split_on :: "char \<Rightarrow> string \<Rightarrow> string list" where
  "split_on sep [] = [[]]"
| "split_on sep (c # cs) =
     (if c = sep then [] # split_on sep cs
      else (case split_on sep cs of
              [] \<Rightarrow> [[c]]
            | p # ps \<Rightarrow> (c # p) # ps))"

text \<open>
  The ASCII characters that \<^verbatim>\<open>str.strip()\<close> treats as white space: tab, line feed,
  vertical tab, form feed, carriage return, the four separators 0x1c..0x1f and the space.
\<close>

definition py_isspace :: "char \<Rightarrow> bool" where
  "py_isspace c = (let n = (of_char c :: nat) in (9 \<le> n \<and> n \<le> 13) \<or> (28 \<le> n \<and> n \<le> 32))"

definition py_strip :: "string \<Rightarrow> string" where
  "py_strip s = rev (dropWhile py_isspace (rev (dropWhile py_isspace s)))"

text \<open>
  \<^verbatim>\<open>int()\<close> skips fewer characters around an ASCII text than \<^verbatim>\<open>str.strip()\<close> drops:
  tab, line feed, vertical tab, form feed, carriage return and the space, but not the
  separators 0x1c..0x1f, so \<^verbatim>\<open>int('\x1c1')\<close> raises \<^verbatim>\<open>ValueError\<close>.
\<close>

definition int_isspace :: "char \<Rightarrow> bool" where
  "int_isspace c = (let n = (of_char c :: nat) in (9 \<le> n \<and> n \<le> 13) \<or> n = 32)"

definition int_strip :: "string \<Rightarrow> string" where
  "int_strip s = rev (dropWhile int_isspace (rev (dropWhile int_isspace s)))"

definition is_digit :: "char \<Rightarrow> bool" where
  "is_digit c = (let n = (of_char c :: nat) in 48 \<le> n \<and> n \<le> 57)"

definition digit_val :: "char \<Rightarrow> nat" where
  "digit_val c = of_char c - 48"

definition digit_char :: "nat \<Rightarrow> char" where
  "digit_char d = char_of (48 + d)"

text \<open>
  The digit scan of \<^verbatim>\<open>int(text)\<close> in base 10: decimal digits, with single underscores
  allowed between two digits. The flag says that the previous position was an underscore or
  the start of the text, where an underscore is refused. The result is the value read and
  the number of digits.
\<close>

fun scan_digits :: "nat \<Rightarrow> nat \<Rightarrow> bool \<Rightarrow> string \<Rightarrow> (nat \<times> nat) option" where
  "scan_digits acc k us [] = (if us then None else Some (acc, k))"
| "scan_digits acc k us (c # cs) =
     (if c = CHR ''_'' then (if us then None else scan_digits acc k True cs)
      else if is_digit c then scan_digits (acc * 10 + digit_val c) (Suc k) False cs
      else None)"

text \<open>
  CPython refuses to convert a decimal text of more than 4300 digits (the default of
  \<^verbatim>\<open>sys.get_int_max_str_digits()\<close>).
\<close>

definition INT_MAX_STR_DIGITS :: nat where "INT_MAX_STR_DIGITS = 4300"

text \<open>
  \<^verbatim>\<open>int(text)\<close>: the white space \<^verbatim>\<open>int\<close> skips around the text is dropped, one sign
  may lead, digits follow. \<open>None\<close> stands for the \<^verbatim>\<open>ValueError\<close> that \<^verbatim>\<open>int\<close> raises.
\<close>

definition py_int :: "string \<Rightarrow> int option" where
  "py_int text =
     (let s = int_strip text;
          neg = (s \<noteq> [] \<and> hd s = CHR ''-'');
          body = (if s \<noteq> [] \<and> (hd s = CHR ''+'' \<or> hd s = CHR ''-'') then tl s else s)
      in case scan_digits 0 0 True body of
           None \<Rightarrow> None
         | Some (v, k) \<Rightarrow>
             if k > INT_MAX_STR_DIGITS then None
             else Some (if neg then - int v else int v))"

text \<open>
  The decimal digits of a natural number, as \<^verbatim>\<open>str\<close> prints them, and the format
  specification \<^verbatim>\<open>:03d\<close>: the sign of a negative number comes first and zeros fill
  the text up to three characters, the sign included.
\<close>

fun digits_of :: "nat \<Rightarrow> string" where
  "digits_of n = (if n < 10 then [digit_char n] else digits_of (n div 10) @ [digit_char (n mod 10)])"

definition fmt_03d :: "int \<Rightarrow> string" where
  "fmt_03d n =
     (let ds = digits_of (nat \<bar>n\<bar>);
          sgn = (if n < 0 then ''-'' else [])
      in sgn @ replicate (3 - length sgn - length ds) CHR ''0'' @ ds)"

section \<open>The ID codec\<close>

text \<open>
  The exceptions of the script. A \<^verbatim>\<open>ValueError\<close> of \<^verbatim>\<open>asset_id_to_int\<close> carries
  the text it was given and what went wrong inside the \<^verbatim>\<open>try\<close> block: the text did
  not split into two parts, or \<^verbatim>\<open>int\<close> refused the part named.
\<close>

datatype value_error = NotTwoParts | InvalidLiteral string

datatype exn = ValueError string value_error | IndexError | OSError

text \<open>
  \<^verbatim>\<open>asset_id_to_int\<close>: every \<^verbatim>\<open>ValueError\<close> raised in the \<^verbatim>\<open>try\<close> block is caught
  and raised again with the text of the asset ID in front.
\<close>

definition asset_id_to_int :: "string \<Rightarrow> exn + int" where
  "asset_id_to_int asset_id_str =
     (let parts = split_on CHR ''-'' asset_id_str in
      if length parts \<noteq> 2 then Inl (ValueError asset_id_str NotTwoParts)
      else (case py_int (parts ! 0) of
              None \<Rightarrow> Inl (ValueError asset_id_str (InvalidLiteral (parts ! 0)))
            | Some major \<Rightarrow>
                (case py_int (parts ! 1) of
                   None \<Rightarrow> Inl (ValueError asset_id_str (InvalidLiteral (parts ! 1)))
                 | Some minor \<Rightarrow> Inr (major * 1000 + minor))))"

text \<open>
  The first line of \<^verbatim>\<open>create_label\<close>: the text of an asset number,
  \<^verbatim>\<open>f"{number // 1000:03d}-{number % 1000:03d}"\<close>. Python's \<^verbatim>\<open>//\<close> and \<^verbatim>\<open>%\<close>
  round towards minus infinity, as \<open>div\<close> and \<open>mod\<close> on \<open>int\<close> do.
\<close>

definition asset_id :: "int \<Rightarrow> string" where
  "asset_id number = fmt_03d (number div 1000) @ ''-'' @ fmt_03d (number mod 1000)"

section \<open>Images\<close>

text \<open>
  The script builds its images with Pillow and the \<^verbatim>\<open>qrcode\<close> library. An image is
  modelled by the calls that made it, so that what was drawn and pasted, and where, can be
  read off it. Its size follows Pillow's rules: drawing, converting and pasting keep the
  size of the image they work on, a crop has the size of its box, and a crop with no box
  is a copy.
\<close>

datatype font = TrueType string nat | DefaultFont

type_synonym box = "int \<times> int \<times> int \<times> int"

datatype image =
    New string int int string
  | QRImage nat nat nat string
  | DrawText image int int string font
  | Convert string image
  | Crop image "box option"
  | Paste image image int int

text \<open>
  What the libraries decide and the script only reads: the number of modules on a side of
  the QR symbol that \<^verbatim>\<open>make(fit=True)\<close> settles on for a payload, starting from the
  version asked for, and the bounding box \<^verbatim>\<open>getbbox()\<close> reports for an image.
\<close>

record backend =
  qr_modules :: "nat \<Rightarrow> string \<Rightarrow> int"
  getbbox :: "image \<Rightarrow> box option"

text \<open>
  \<open>New mode w h colour\<close> is \<^verbatim>\<open>Image.new(mode, (w, h), colour)\<close>;
  \<open>QRImage version box_size border data\<close> is the image \<^verbatim>\<open>make_image\<close> returns, a
  square of \<open>(modules + 2 * border) * box_size\<close> pixels;
  \<open>DrawText im x y text font\<close> is \<^verbatim>\<open>ImageDraw.Draw(im).text((x, y), text, font=font)\<close>;
  \<open>Paste dst src x y\<close> is \<^verbatim>\<open>dst.paste(src, (x, y))\<close>.
\<close>

fun size_of :: "backend \<Rightarrow> image \<Rightarrow> int \<times> int" where
  "size_of B (New mode w h colour) = (w, h)"
| "size_of B (QRImage version box_size border data) =
     (let side = (qr_modules B version data + 2 * int border) * int box_size in (side, side))"
| "size_of B (DrawText im x y txt f) = size_of B im"
| "size_of B (Convert mode im) = size_of B im"
| "size_of B (Crop im None) = size_of B im"
| "size_of B (Crop im (Some (left, upper, right, lower))) = (right - left, lower - upper)"
| "size_of B (Paste dst src x y) = size_of B dst"

definition width :: "backend \<Rightarrow> image \<Rightarrow> int" where
  "width B im = fst (size_of B im)"

definition height :: "backend \<Rightarrow> image \<Rightarrow> int" where
  "height B im = snd (size_of B im)"

section \<open>The host system and the state of a run\<close>

text \<open>
  What a run finds on its host: the environment variable, what \<^verbatim>\<open>fc-match\<close> prints or
  how starting it fails, which paths exist, whether an image can be written under a name,
  and how \<^verbatim>\<open>ptouch-print\<close> ends for a file. A failed process is one of the two
  exceptions the script catches, with the text \<^verbatim>\<open>str(e)\<close> of the exception.
\<close>

datatype proc_error = CalledProcessError string | FileNotFoundError string

fun error_text :: "proc_error \<Rightarrow> string" where
  "error_text (CalledProcessError msg) = msg"
| "error_text (FileNotFoundError msg) = msg"

record system =
  getenv_HOMEBOX_DOMAIN :: "string option"
  fc_match :: "proc_error + string"
  path_exists :: "string \<Rightarrow> bool"
  save_ok :: "string \<Rightarrow> bool"
  ptouch_print :: "string \<Rightarrow> proc_error option"

text \<open>
  What a run changes: the image files written, the commands handed to \<^verbatim>\<open>subprocess\<close>
  (in order), and the lines printed.
\<close>

record world =
  files :: "string \<Rightarrow> image option"
  subprocesses :: "string list list"
  stdout :: "string list"

section \<open>The font resolver\<close>

definition get_font :: "system \<Rightarrow> nat \<Rightarrow> world \<Rightarrow> font \<times> world" where
  "get_font sys font_size w =
     (let cmd = [''fc-match'', ''-f'', ''%{file}'', ''sans:style=ExtraBold:weight=200:bold''];
          w1 = w\<lparr>subprocesses := subprocesses w @ [cmd]\<rparr>
      in case fc_match sys of
           Inl e \<Rightarrow> (DefaultFont, w1)
         | Inr out \<Rightarrow>
             (let font_path = py_strip out
              in if path_exists sys font_path then (TrueType font_path font_size, w1)
                 else (DefaultFont, w1)))"

section \<open>The label renderer\<close>

definition make_qr_img :: "string \<Rightarrow> string \<Rightarrow> image" where
  "make_qr_img url aid = Convert ''1'' (QRImage QR_VERSION QR_BOX_SIZE QR_BORDER (url @ aid))"

definition make_text_img :: "backend \<Rightarrow> font \<Rightarrow> string \<Rightarrow> string \<Rightarrow> image" where
  "make_text_img B f line0 line1 =
     (let temp_txt = New ''RGB'' TEMP_CANVAS_WIDTH (TAPE_HEIGHT * 2) ''white'';
          temp_txt = DrawText temp_txt 0 TEXT_START_Y line0 f;
          temp_txt = DrawText temp_txt 0 (TEXT_START_Y + TEXT_LINE_SPACING) line1 f;
          temp_txt = Convert ''RGB'' (Convert ''1'' temp_txt)
      in Crop temp_txt (getbbox B temp_txt))"

text \<open>
  \<^verbatim>\<open>create_label\<close>. The two lines of text are \<^verbatim>\<open>parts[0]\<close> and \<^verbatim>\<open>parts[1]\<close> of
  the asset ID split at the dash; a list with fewer than two parts would raise
  \<^verbatim>\<open>IndexError\<close>.
\<close>

definition create_label ::
  "system \<Rightarrow> backend \<Rightarrow> int \<Rightarrow> string \<Rightarrow> world \<Rightarrow> (exn + image) \<times> world" where
  "create_label sys B number url w =
     (let aid = asset_id number;
          qr_img = make_qr_img url aid;
          (f, w1) = get_font sys FONT_SIZE w;
          parts = split_on CHR ''-'' aid
      in case parts of
           line0 # line1 # rest \<Rightarrow>
             (let text_img = make_text_img B f line0 line1;
                  unit_w = width B qr_img + ELEMENT_GAP + width B text_img;
                  unit = New ''RGB'' unit_w TAPE_HEIGHT ''white'';
                  unit = Paste unit qr_img 0 ((TAPE_HEIGHT - height B qr_img) div 2);
                  unit = Paste unit text_img (width B qr_img + ELEMENT_GAP)
                           ((TAPE_HEIGHT - height B text_img) div 2)
              in (Inr unit, w1))
         | _ \<Rightarrow> (Inl IndexError, w1))"

section \<open>The strip assembler\<close>

text \<open>
  The list comprehension \<^verbatim>\<open>[create_label(i, url) for i in range(start_id, end_id + 1)]\<close>
  runs \<^verbatim>\<open>create_label\<close> on the numbers in order and stops at the first exception.
\<close>

fun create_labels ::
  "system \<Rightarrow> backend \<Rightarrow> string \<Rightarrow> int list \<Rightarrow> world \<Rightarrow> (exn + image list) \<times> world" where
  "create_labels sys B url [] w = (Inr [], w)"
| "create_labels sys B url (i # rest) w =
     (case create_label sys B i url w of
        (Inl e, w1) \<Rightarrow> (Inl e, w1)
      | (Inr l, w1) \<Rightarrow>
          (case create_labels sys B url rest w1 of
             (Inl e, w2) \<Rightarrow> (Inl e, w2)
           | (Inr ls, w2) \<Rightarrow> (Inr (l # ls), w2)))"

text \<open>The loop that pastes each label at the cursor and moves the cursor on.\<close>

fun paste_labels :: "backend \<Rightarrow> image \<Rightarrow> int \<Rightarrow> image list \<Rightarrow> image" where
  "paste_labels B strip x_cursor [] = strip"
| "paste_labels B strip x_cursor (l # ls) =
     paste_labels B (Paste strip l x_cursor 0) (x_cursor + (width B l + LABEL_GAP)) ls"

definition assemble_strip :: "backend \<Rightarrow> image list \<Rightarrow> image" where
  "assemble_strip B labels =
     (let total_w = sum_list (map (width B) labels) + int (length labels) * LABEL_GAP;
          strip = New ''RGB'' total_w TAPE_HEIGHT ''white''
      in paste_labels B strip 0 labels)"

definition image_filename :: "string option \<Rightarrow> string" where
  "image_filename output_filename =
     (case output_filename of
        None \<Rightarrow> ''asset_labels.png''
      | Some name \<Rightarrow> if name \<noteq> [] then name else ''asset_labels.png'')"

definition generate_label_strip ::
  "system \<Rightarrow> backend \<Rightarrow> int \<Rightarrow> int \<Rightarrow> string \<Rightarrow> bool \<Rightarrow> string option \<Rightarrow> world
     \<Rightarrow> (exn + unit) \<times> world" where
  "generate_label_strip sys B start_id end_id url print_label output_filename w =
     (case create_labels sys B url [start_id..end_id] w of
        (Inl e, w1) \<Rightarrow> (Inl e, w1)
      | (Inr labels, w1) \<Rightarrow>
          (let strip = assemble_strip B labels;
               name = image_filename output_filename
           in if \<not> save_ok sys name then (Inl OSError, w1)
              else
                (let w2 = w1\<lparr>files := (files w1)(name \<mapsto> strip),
                              stdout := stdout w1 @ [''Successfully created '' @ name]\<rparr>
                 in if print_label then
                      (let w3 = w2\<lparr>subprocesses :=
                                    subprocesses w2 @ [[''ptouch-print'', ''--image'', name]]\<rparr>
                       in case ptouch_print sys name of
                            None \<Rightarrow>
                              (Inr (), w3\<lparr>stdout := stdout w3 @ [''Successfully printed '' @ name]\<rparr>)
                          | Some e \<Rightarrow>
                              (Inr (), w3\<lparr>stdout := stdout w3 @
                                 [''Error printing '' @ name @ '': '' @ error_text e]\<rparr>))
                    else (Inr (), w2))))"

section \<open>The command line\<close>

text \<open>
  The options as given on the command line; \<^verbatim>\<open>--start\<close> and \<^verbatim>\<open>--end\<close> are required,
  \<^verbatim>\<open>--domain\<close> defaults to the environment variable, \<^verbatim>\<open>--print\<close> is a flag.
\<close>

record cli =
  cli_start :: "string option"
  cli_end :: "string option"
  cli_domain :: "string option"
  cli_print :: bool
  cli_output :: "string option"

record args =
  arg_start :: string
  arg_end :: string
  arg_domain :: "string option"
  arg_print :: bool
  arg_output :: "string option"

text \<open>
  The calls of \<^verbatim>\<open>parser.error\<close>: each prints a usage message and ends the process with
  status 2.
\<close>

datatype usage =
    MissingRequired "string list"
  | DomainRequired
  | InvalidAssetId exn
  | StartAfterEnd string string

datatype outcome = Success | UsageError usage | Uncaught exn

fun exit_code :: "outcome \<Rightarrow> nat" where
  "exit_code Success = 0"
| "exit_code (UsageError u) = 2"
| "exit_code (Uncaught e) = 1"

definition parse_args :: "system \<Rightarrow> cli \<Rightarrow> usage + args" where
  "parse_args sys c =
     (case (cli_start c, cli_end c) of
        (Some s, Some e) \<Rightarrow>
          Inr \<lparr>arg_start = s, arg_end = e,
               arg_domain = (case cli_domain c of
                               Some d \<Rightarrow> Some d
                             | None \<Rightarrow> getenv_HOMEBOX_DOMAIN sys),
               arg_print = cli_print c, arg_output = cli_output c\<rparr>
      | (None, Some e) \<Rightarrow> Inl (MissingRequired [''--start''])
      | (Some s, None) \<Rightarrow> Inl (MissingRequired [''--end''])
      | (None, None) \<Rightarrow> Inl (MissingRequired [''--start'', ''--end'']))"

text \<open>Python's truth value of \<^verbatim>\<open>args.domain\<close>: \<^verbatim>\<open>None\<close> and the empty text are false.\<close>

definition truthy :: "string option \<Rightarrow> bool" where
  "truthy v = (case v of None \<Rightarrow> False | Some s \<Rightarrow> s \<noteq> [])"

definition main :: "system \<Rightarrow> backend \<Rightarrow> cli \<Rightarrow> world \<Rightarrow> outcome \<times> world" where
  "main sys B c w =
     (case parse_args sys c of
        Inl u \<Rightarrow> (UsageError u, w)
      | Inr a \<Rightarrow>
          if \<not> truthy (arg_domain a) then (UsageError DomainRequired, w)
          else
            (case asset_id_to_int (arg_start a) of
               Inl e \<Rightarrow> (UsageError (InvalidAssetId e), w)
             | Inr start_int \<Rightarrow>
                 (case asset_id_to_int (arg_end a) of
                    Inl e \<Rightarrow> (UsageError (InvalidAssetId e), w)
                  | Inr end_int \<Rightarrow>
                      if start_int > end_int
                      then (UsageError (StartAfterEnd (arg_start a) (arg_end a)), w)
                      else
                        (let full_url = ''https://'' @ the (arg_domain a) @ ''/a/''
                         in case generate_label_strip sys B start_int end_int full_url
                                   (arg_print a) (arg_output a) w of
                              (Inl e, w1) \<Rightarrow> (Uncaught e, w1)
                            | (Inr u, w1) \<Rightarrow> (Success, w1)))))"

section \<open>Auxiliary definitions for the properties\<close>

text \<open>The value of a text of decimal digits, and padding with zeros on the left.\<close>

definition dec_val :: "string \<Rightarrow> nat" where
  "dec_val ds = foldl (\<lambda>a c. a * 10 + digit_val c) 0 ds"

definition zpad :: "nat \<Rightarrow> string \<Rightarrow> string" where
  "zpad w s = replicate (w - length s) CHR ''0'' @ s"

definition three_digits :: "string \<Rightarrow> bool" where
  "three_digits s = (length s = 3 \<and> list_all is_digit s)"

text \<open>
  What can be read off an image: the payloads of the QR symbols in it and the texts drawn
  on it, in the order in which they were put there.
\<close>

fun qr_data :: "image \<Rightarrow> string list" where
  "qr_data (New mode w h colour) = []"
| "qr_data (QRImage version box_size border data) = [data]"
| "qr_data (DrawText im x y txt f) = qr_data im"
| "qr_data (Convert mode im) = qr_data im"
| "qr_data (Crop im b) = qr_data im"
| "qr_data (Paste dst src x y) = qr_data dst @ qr_data src"

fun drawn_text :: "image \<Rightarrow> string list" where
  "drawn_text (New mode w h colour) = []"
| "drawn_text (QRImage version box_size border data) = []"
| "drawn_text (DrawText im x y txt f) = drawn_text im @ [txt]"
| "drawn_text (Convert mode im) = drawn_text im"
| "drawn_text (Crop im b) = drawn_text im"
| "drawn_text (Paste dst src x y) = drawn_text dst @ drawn_text src"

text \<open>
  A host, a backend and command lines to run the model on: no font tool and a printer tool
  that exits with an error; QR symbols of 29 modules and a bounding box that is the whole
  text canvas.
\<close>

definition sample_backend :: backend where
  "sample_backend = \<lparr>qr_modules = (\<lambda>version data. 29), getbbox = (\<lambda>im. Some (0, 0, 90, 152))\<rparr>"

definition sample_system :: system where
  "sample_system =
     \<lparr>getenv_HOMEBOX_DOMAIN = None,
      fc_match = Inl (FileNotFoundError ''fc-match''),
      path_exists = (\<lambda>p. False),
      save_ok = (\<lambda>name. True),
      ptouch_print = (\<lambda>name. Some (CalledProcessError ''exit status 1''))\<rparr>"

definition empty_world :: world where
  "empty_world = \<lparr>files = Map.empty, subprocesses = [], stdout = []\<rparr>"

definition sample_cli :: cli where
  "sample_cli =
     \<lparr>cli_start = Some ''001-000'', cli_end = Some ''001-002'',
      cli_domain = Some ''box.example.com'', cli_print = True, cli_output = None\<rparr>"

text \<open>The labels the list comprehension of \<^verbatim>\<open>generate_label_strip\<close> makes for a range.\<close>

definition labels_of :: "system \<Rightarrow> backend \<Rightarrow> string \<Rightarrow> int \<Rightarrow> int \<Rightarrow> world \<Rightarrow> image list" where
  "labels_of sys B url start_id end_id w =
     (case fst (create_labels sys B url [start_id..end_id] w) of
        Inl e \<Rightarrow> []
      | Inr labels \<Rightarrow> labels)"

definition reversed_cli :: cli where
  "reversed_cli =
     \<lparr>cli_start = Some ''001-005'', cli_end = Some ''001-002'',
      cli_domain = Some ''box.example.com'', cli_print = True, cli_output = None\<rparr>"

definition no_domain_cli :: cli where
  "no_domain_cli =
     \<lparr>cli_start = Some ''001-000'', cli_end = Some ''001-002'',
      cli_domain = None, cli_print = False, cli_output = None\<rparr>"

section \<open>Properties\<close>

lemma split_on_not_Nil: "split_on sep s \<noteq> []"
  by (induction s) (auto split: list.splits)

lemma split_on_no_sep: "sep \<notin> set s \<Longrightarrow> split_on sep s = [s]"
  by (induction s) auto

lemma split_on_append: "split_on sep (x @ sep # y) = split_on sep x @ split_on sep y"
proof (induction x)
  case Nil
  show ?case by simp
next
  case (Cons c x)
  obtain p ps where p: "split_on sep x = p # ps"
    using split_on_not_Nil [of sep x] by (cases "split_on sep x") auto
  show ?case using Cons p by simp
qed

lemma is_digit_not_space: "is_digit c \<Longrightarrow> \<not> int_isspace c"
  by (auto simp: is_digit_def int_isspace_def Let_def)

lemma is_digit_neq: "is_digit c \<Longrightarrow> c \<noteq> CHR ''_'' \<and> c \<noteq> CHR ''-'' \<and> c \<noteq> CHR ''+''"
  by (auto simp: is_digit_def Let_def)

lemma digit_char_val: "is_digit c \<Longrightarrow> digit_char (digit_val c) = c"
  by (simp add: is_digit_def digit_char_def digit_val_def Let_def)

lemma digit_val_char: "d < 10 \<Longrightarrow> digit_val (digit_char d) = d"
  by (simp add: digit_char_def digit_val_def)

lemma is_digit_char: "d < 10 \<Longrightarrow> is_digit (digit_char d)"
  by (simp add: digit_char_def is_digit_def Let_def)

lemma digit_val_lt: "is_digit c \<Longrightarrow> digit_val c < 10"
  by (auto simp: is_digit_def digit_val_def Let_def)

lemma scan_digits_all:
  "list_all is_digit ds \<Longrightarrow>
   scan_digits acc k us ds =
     (if ds = [] \<and> us then None
      else Some (foldl (\<lambda>a c. a * 10 + digit_val c) acc ds, k + length ds))"
  by (induction ds arbitrary: acc k us) (simp_all add: is_digit_neq)

lemma dropWhile_hd: "s \<noteq> [] \<Longrightarrow> \<not> P (hd s) \<Longrightarrow> dropWhile P s = s"
  by (cases s) simp_all

lemma int_strip_id:
  "s \<noteq> [] \<Longrightarrow> \<not> int_isspace (hd s) \<Longrightarrow> \<not> int_isspace (last s) \<Longrightarrow> int_strip s = s"
  by (simp add: int_strip_def dropWhile_hd hd_rev)

lemma py_int_digits:
  assumes "list_all is_digit ds" "ds \<noteq> []" "length ds \<le> INT_MAX_STR_DIGITS"
  shows "py_int ds = Some (int (dec_val ds))"
proof -
  have h: "is_digit (hd ds)" and l: "is_digit (last ds)"
    using assms(1,2) by (auto simp: list_all_iff)
  have s: "int_strip ds = ds"
    using assms(2) h l by (simp add: int_strip_id is_digit_not_space)
  show ?thesis
    using assms h
    by (simp add: py_int_def s Let_def scan_digits_all is_digit_neq dec_val_def)
qed

declare digits_of.simps [simp del]

lemma dec_val_snoc: "dec_val (ds @ [c]) = dec_val ds * 10 + digit_val c"
  by (simp add: dec_val_def)

lemma dec_val_single: "dec_val [c] = digit_val c"
  by (simp add: dec_val_def)

lemma foldl_dec_zero:
  "foldl (\<lambda>a c. a * 10 + digit_val c) 0 (replicate j CHR ''0'' @ s) =
   foldl (\<lambda>a c. a * 10 + digit_val c) 0 s"
  by (induction j) (simp_all add: digit_val_def)

lemma dec_val_zeros: "dec_val (replicate j CHR ''0'' @ s) = dec_val s"
  by (simp add: dec_val_def foldl_dec_zero del: foldl_append)

lemma dec_val_digits_of: "dec_val (digits_of n) = n"
proof (induction n rule: digits_of.induct)
  case (1 n)
  show ?case
  proof (cases "n < 10")
    case True
    then show ?thesis
      by (subst digits_of.simps) (simp add: dec_val_single digit_val_char)
  next
    case False
    then have "dec_val (digits_of (n div 10)) = n div 10" using 1 by simp
    with False show ?thesis
      by (subst digits_of.simps) (simp add: dec_val_snoc digit_val_char)
  qed
qed

lemma is_digit_digits_of: "list_all is_digit (digits_of n)"
proof (induction n rule: digits_of.induct)
  case (1 n)
  show ?case
  proof (cases "n < 10")
    case True
    then show ?thesis by (subst digits_of.simps) (simp add: is_digit_char)
  next
    case False
    with 1 show ?thesis by (subst digits_of.simps) (simp add: is_digit_char)
  qed
qed

lemma length_digits_of_pos: "0 < length (digits_of n)"
  by (subst digits_of.simps) simp

lemma length_digits_of_3: "n < 1000 \<Longrightarrow> length (digits_of n) \<le> 3"
  by (simp add: digits_of.simps [of n] digits_of.simps [of "n div 10"]
      digits_of.simps [of "n div 10 div 10"])

lemma fmt_03d_nonneg: "0 \<le> n \<Longrightarrow> fmt_03d n = zpad 3 (digits_of (nat n))"
  by (simp add: fmt_03d_def zpad_def Let_def)

lemma digit_char_0: "digit_char 0 = CHR ''0''"
  unfolding digit_char_def by code_simp

lemma zeros_of_val_0_set:
  "list_all is_digit ds \<Longrightarrow> dec_val ds = 0 \<Longrightarrow> \<forall>c\<in>set ds. c = CHR ''0''"
proof (induction ds rule: rev_induct)
  case Nil
  show ?case by simp
next
  case (snoc c ds)
  then have d: "is_digit c" and v: "dec_val ds = 0" and z: "digit_val c = 0"
    by (simp_all add: dec_val_snoc)
  have "c = CHR ''0''"
    using digit_char_val [OF d] z digit_char_0 by simp
  then show ?case
    using snoc v by simp
qed

lemma zeros_of_val_0:
  "list_all is_digit ds \<Longrightarrow> dec_val ds = 0 \<Longrightarrow> ds = replicate (length ds) CHR ''0''"
  using zeros_of_val_0_set [of ds] replicate_length_same [of ds "CHR ''0''"] by simp

lemma zpad_digits_of_dec_val:
  "list_all is_digit ds \<Longrightarrow> ds \<noteq> [] \<Longrightarrow> zpad (length ds) (digits_of (dec_val ds)) = ds"
proof (induction ds rule: rev_induct)
  case Nil
  then show ?case by simp
next
  case (snoc c ds)
  then have d: "is_digit c" and a: "list_all is_digit ds" by simp_all
  let ?n = "dec_val ds * 10 + digit_val c"
  show ?case
  proof (cases "dec_val ds = 0")
    case True
    have "ds = replicate (length ds) CHR ''0''"
      using zeros_of_val_0 [OF a True] .
    moreover have "digits_of ?n = [c]"
      using True d by (subst digits_of.simps) (simp add: digit_val_lt digit_char_val)
    ultimately show ?thesis
      by (simp add: dec_val_snoc zpad_def)
  next
    case False
    then have ne: "ds \<noteq> []" by (auto simp: dec_val_def)
    have lt: "digit_val c < 10" using d by (rule digit_val_lt)
    have "digits_of ?n = digits_of (dec_val ds) @ [c]"
      using False d lt by (subst digits_of.simps) (simp add: digit_char_val)
    moreover have "zpad (length ds) (digits_of (dec_val ds)) = ds"
      using snoc a ne by simp
    ultimately show ?thesis
      by (simp add: dec_val_snoc zpad_def)
  qed
qed

lemma dec_val_bound: "list_all is_digit ds \<Longrightarrow> dec_val ds < 10 ^ length ds"
proof (induction ds rule: rev_induct)
  case Nil
  show ?case by (simp add: dec_val_def)
next
  case (snoc c ds)
  then have "dec_val ds < 10 ^ length ds" and "digit_val c < 10"
    by (simp_all add: digit_val_lt)
  then show ?case by (simp add: dec_val_snoc)
qed

lemma INT_MAX_3: "3 \<le> INT_MAX_STR_DIGITS"
  by (simp add: INT_MAX_STR_DIGITS_def)

lemma three_digits_py_int: "three_digits s \<Longrightarrow> py_int s = Some (int (dec_val s))"
  using INT_MAX_3 by (intro py_int_digits) (auto simp: three_digits_def)

lemma three_digits_fmt: "three_digits s \<Longrightarrow> fmt_03d (int (dec_val s)) = s"
  using zpad_digits_of_dec_val [of s] by (cases "s = []") (auto simp: three_digits_def fmt_03d_nonneg)

lemma three_digits_lt: "three_digits s \<Longrightarrow> dec_val s < 1000"
  using dec_val_bound [of s] by (simp add: three_digits_def)

lemma three_digits_no_dash: "three_digits s \<Longrightarrow> CHR ''-'' \<notin> set s"
  using is_digit_neq by (auto simp: three_digits_def list_all_iff)

lemma three_digits_fmt_03d:
  assumes "0 \<le> k" "k < 1000"
  shows "three_digits (fmt_03d k)"
proof -
  have "length (digits_of (nat k)) \<le> 3"
    using assms by (intro length_digits_of_3) simp
  moreover have "is_digit CHR ''0''"
    by (simp add: is_digit_def)
  ultimately show ?thesis
    using assms is_digit_digits_of [of "nat k"]
    by (auto simp: three_digits_def fmt_03d_nonneg zpad_def list_all_iff)
qed

lemma dec_val_fmt_03d: "0 \<le> k \<Longrightarrow> dec_val (fmt_03d k) = nat k"
  by (simp add: fmt_03d_nonneg zpad_def dec_val_zeros dec_val_digits_of)

lemma py_int_fmt_03d: "0 \<le> k \<Longrightarrow> k < 1000 \<Longrightarrow> py_int (fmt_03d k) = Some k"
  using three_digits_py_int [OF three_digits_fmt_03d, of k] by (simp add: dec_val_fmt_03d)

lemma split_two:
  "CHR ''-'' \<notin> set a \<Longrightarrow> CHR ''-'' \<notin> set b \<Longrightarrow> split_on CHR ''-'' (a @ ''-'' @ b) = [a, b]"
  using split_on_append [of "CHR ''-''" a b] by (simp add: split_on_no_sep)

lemma asset_id_to_int_two:
  "split_on CHR ''-'' text = [a, b] \<Longrightarrow> py_int a = Some major \<Longrightarrow> py_int b = Some minor \<Longrightarrow>
   asset_id_to_int text = Inr (major * 1000 + minor)"
  by (simp add: asset_id_to_int_def)

lemma asset_id_small:
  "0 \<le> minor \<Longrightarrow> minor < 1000 \<Longrightarrow>
   asset_id (major * 1000 + minor) = fmt_03d major @ ''-'' @ fmt_03d minor"
  by (simp add: asset_id_def)

text \<open>
  Claim C2. A text made of three decimal digits, a dash and three decimal digits is what
  the first line of \<^verbatim>\<open>create_label\<close> prints for the number \<^verbatim>\<open>asset_id_to_int\<close> reads
  from it: the parser succeeds and formatting its result gives the text back.
\<close>

theorem asset_id_round_trip:
  assumes "three_digits a" and "three_digits b"
  shows "\<exists>n. asset_id_to_int (a @ ''-'' @ b) = Inr n \<and> asset_id n = a @ ''-'' @ b"
proof -
  let ?n = "int (dec_val a) * 1000 + int (dec_val b)"
  have "split_on CHR ''-'' (a @ ''-'' @ b) = [a, b]"
    using assms by (intro split_two three_digits_no_dash)
  then have "asset_id_to_int (a @ ''-'' @ b) = Inr ?n"
    using assms by (simp add: asset_id_to_int_two three_digits_py_int del: append.simps)
  moreover have "asset_id ?n = a @ ''-'' @ b"
    using assms three_digits_lt [of b]
    by (simp add: asset_id_small three_digits_fmt del: append.simps)
  ultimately show ?thesis by blast
qed

theorem asset_id_round_trip_witness:
  "asset_id_to_int ''001-086'' = Inr 1086 \<and> asset_id 1086 = ''001-086''"
proof -
  have a: "three_digits ''001''" and b: "three_digits ''086''"
    by (simp_all add: three_digits_def is_digit_def)
  obtain n where n: "asset_id_to_int (''001'' @ ''-'' @ ''086'') = Inr n"
      and t: "asset_id n = ''001'' @ ''-'' @ ''086''"
    using asset_id_round_trip [OF a b] by blast
  have "asset_id_to_int ''001-086'' = Inr 1086" by code_simp
  with n have "n = 1086" by simp
  with t show ?thesis using \<open>asset_id_to_int ''001-086'' = Inr 1086\<close> by simp
qed

lemma asset_id_last_part:
  assumes "split_on CHR ''-'' (asset_id n) = [a, b]"
  shows "b = fmt_03d (n mod 1000)"
proof -
  have t: "three_digits (fmt_03d (n mod 1000))"
    by (intro three_digits_fmt_03d) simp_all
  have "split_on CHR ''-'' (asset_id n) =
        split_on CHR ''-'' (fmt_03d (n div 1000)) @ [fmt_03d (n mod 1000)]"
    unfolding asset_id_def
    using split_on_append [of "CHR ''-''" "fmt_03d (n div 1000)" "fmt_03d (n mod 1000)"]
      three_digits_no_dash [OF t]
    by (simp add: split_on_no_sep)
  with assms have "last [a, b] = last (split_on CHR ''-'' (fmt_03d (n div 1000)) @ [fmt_03d (n mod 1000)])"
    by simp
  then show ?thesis by simp
qed



text \<open>
  Claim C5. When the second part reads as a number of 1000 or more, the parser succeeds
  with \<open>major * 1000 + minor\<close> and formatting that number gives a text other than the one
  parsed; for \<^verbatim>\<open>001-1500\<close> the number is \<open>1 * 1000 + 1500\<close> and its text is
  \<^verbatim>\<open>002-500\<close>.
\<close>

theorem minor_overflow_breaks_round_trip:
  "(split_on CHR ''-'' text = [a, b] \<and> py_int a = Some major \<and> py_int b = Some minor \<and>
      1000 \<le> minor \<longrightarrow>
        asset_id_to_int text = Inr (major * 1000 + minor) \<and>
        asset_id (major * 1000 + minor) \<noteq> text) \<and>
   asset_id_to_int ''001-1500'' = Inr (1 * 1000 + 1500) \<and>
   asset_id (1 * 1000 + 1500) = ''002-500''"
proof (intro conjI impI)
  assume h: "split_on CHR ''-'' text = [a, b] \<and> py_int a = Some major \<and> py_int b = Some minor \<and>
      1000 \<le> minor"
  then show "asset_id_to_int text = Inr (major * 1000 + minor)"
    by (simp add: asset_id_to_int_two)
  show "asset_id (major * 1000 + minor) \<noteq> text"
  proof
    assume e: "asset_id (major * 1000 + minor) = text"
    let ?r = "(major * 1000 + minor) mod 1000"
    have "b = fmt_03d ?r"
      using h e asset_id_last_part [of "major * 1000 + minor" a b] by simp
    moreover have "py_int (fmt_03d ?r) = Some ?r"
      by (intro py_int_fmt_03d) simp_all
    ultimately have "minor = ?r" using h by simp
    moreover have "?r < 1000" by simp
    ultimately show False using h by linarith
  qed
next
  show "asset_id_to_int ''001-1500'' = Inr (1 * 1000 + 1500)" by code_simp
  show "asset_id (1 * 1000 + 1500) = ''002-500''" by code_simp
qed

theorem minor_overflow_breaks_round_trip_witness:
  "asset_id_to_int ''012-3456'' = Inr (12 * 1000 + 3456) \<and>
   asset_id (12 * 1000 + 3456) \<noteq> ''012-3456'' \<and>
   asset_id 15456 = ''015-456''"
proof -
  have h: "split_on CHR ''-'' ''012-3456'' = [''012'', ''3456''] \<and> py_int ''012'' = Some 12 \<and>
      py_int ''3456'' = Some 3456 \<and> (1000::int) \<le> 3456"
    by code_simp
  have "asset_id 15456 = ''015-456''" by code_simp
  then show ?thesis
    using minor_overflow_breaks_round_trip [of "''012-3456''" "''012''" "''3456''" 12 3456] h
    by blast
qed



lemma split_on_asset_id:
  "\<exists>line0 line1 rest. split_on CHR ''-'' (asset_id n) = line0 # line1 # rest"
proof -
  obtain p ps where p: "split_on CHR ''-'' (fmt_03d (n div 1000)) = p # ps"
    using split_on_not_Nil [of "CHR ''-''" "fmt_03d (n div 1000)"]
    by (cases "split_on CHR ''-'' (fmt_03d (n div 1000))") auto
  obtain q qs where q: "split_on CHR ''-'' (fmt_03d (n mod 1000)) = q # qs"
    using split_on_not_Nil [of "CHR ''-''" "fmt_03d (n mod 1000)"]
    by (cases "split_on CHR ''-'' (fmt_03d (n mod 1000))") auto
  have "split_on CHR ''-'' (asset_id n) = (p # ps) @ (q # qs)"
    unfolding asset_id_def
    using split_on_append [of "CHR ''-''" "fmt_03d (n div 1000)" "fmt_03d (n mod 1000)"] p q
    by simp
  then show ?thesis by (cases ps) auto
qed

lemma size_of_make_qr_img:
  "size_of B (make_qr_img url aid) = size_of B (QRImage QR_VERSION QR_BOX_SIZE QR_BORDER (url @ aid))"
  by (simp add: make_qr_img_def)

lemma qr_data_make_qr_img: "qr_data (make_qr_img url aid) = [url @ aid]"
  by (simp add: make_qr_img_def)

lemma drawn_text_make_qr_img: "drawn_text (make_qr_img url aid) = []"
  by (simp add: make_qr_img_def)

lemma qr_data_make_text_img: "qr_data (make_text_img B f line0 line1) = []"
  by (simp add: make_text_img_def Let_def)

lemma drawn_text_make_text_img: "drawn_text (make_text_img B f line0 line1) = [line0, line1]"
  by (simp add: make_text_img_def Let_def)

lemma create_label_ok:
  assumes "split_on CHR ''-'' (asset_id number) = line0 # line1 # rest"
    and "get_font sys FONT_SIZE w = (f, w1)"
  shows "\<exists>unit. create_label sys B number url w = (Inr unit, w1) \<and>
     width B unit = width B (make_qr_img url (asset_id number)) + ELEMENT_GAP +
                    width B (make_text_img B f line0 line1) \<and>
     height B unit = TAPE_HEIGHT \<and>
     qr_data unit = [url @ asset_id number] \<and>
     drawn_text unit = [line0, line1]"
  using assms
  by (simp add: create_label_def Let_def width_def height_def qr_data_make_qr_img
      drawn_text_make_qr_img qr_data_make_text_img drawn_text_make_text_img)

lemma get_font_world:
  "\<exists>f. get_font sys n w =
     (f, w\<lparr>subprocesses := subprocesses w @
        [[''fc-match'', ''-f'', ''%{file}'', ''sans:style=ExtraBold:weight=200:bold'']]\<rparr>)"
  by (simp add: get_font_def Let_def split: sum.splits)

lemma get_font_files: "get_font sys n w = (f, w1) \<Longrightarrow> files w1 = files w \<and> stdout w1 = stdout w"
  using get_font_world [of sys n w] by auto

text \<open>
  Claim C9. For every asset number and URL \<^verbatim>\<open>create_label\<close> returns a label; its width
  is the width of its QR image plus \<open>ELEMENT_GAP\<close> plus the width of the cropped text
  image, and its height is \<open>TAPE_HEIGHT\<close>.
\<close>

theorem create_label_size:
  "\<exists>unit w1 f line0 line1 rest.
     create_label sys B number url w = (Inr unit, w1) \<and>
     get_font sys FONT_SIZE w = (f, w1) \<and>
     split_on CHR ''-'' (asset_id number) = line0 # line1 # rest \<and>
     width B unit = width B (make_qr_img url (asset_id number)) + ELEMENT_GAP +
                    width B (make_text_img B f line0 line1) \<and>
     height B unit = TAPE_HEIGHT"
proof -
  obtain line0 line1 rest where p: "split_on CHR ''-'' (asset_id number) = line0 # line1 # rest"
    using split_on_asset_id by blast
  obtain f w1 where g: "get_font sys FONT_SIZE w = (f, w1)"
    by (cases "get_font sys FONT_SIZE w") auto
  from create_label_ok [OF p g, of B url] p g show ?thesis by blast
qed

lemma create_labels_ok:
  "\<exists>labels w1. create_labels sys B url ns w = (Inr labels, w1) \<and>
     length labels = length ns \<and>
     map qr_data labels = map (\<lambda>i. [url @ asset_id i]) ns \<and>
     map drawn_text labels = map (\<lambda>i. take 2 (split_on CHR ''-'' (asset_id i))) ns \<and>
     list_all (\<lambda>l. height B l = TAPE_HEIGHT) labels \<and>
     files w1 = files w \<and> stdout w1 = stdout w"
proof (induction ns arbitrary: w)
  case Nil
  show ?case by simp
next
  case (Cons i ns)
  obtain line0 line1 rest where p: "split_on CHR ''-'' (asset_id i) = line0 # line1 # rest"
    using split_on_asset_id by blast
  obtain f w1 where g: "get_font sys FONT_SIZE w = (f, w1)"
    by (cases "get_font sys FONT_SIZE w") auto
  obtain unit where u: "create_label sys B i url w = (Inr unit, w1)"
      and h: "height B unit = TAPE_HEIGHT"
      and q: "qr_data unit = [url @ asset_id i]"
      and d: "drawn_text unit = [line0, line1]"
    using create_label_ok [OF p g, of B url] by blast
  obtain labels w2 where r: "create_labels sys B url ns w1 = (Inr labels, w2)"
      and r1: "length labels = length ns"
      and r2: "map qr_data labels = map (\<lambda>i. [url @ asset_id i]) ns"
      and r3: "map drawn_text labels = map (\<lambda>i. take 2 (split_on CHR ''-'' (asset_id i))) ns"
      and r4: "list_all (\<lambda>l. height B l = TAPE_HEIGHT) labels"
      and r5: "files w2 = files w1 \<and> stdout w2 = stdout w1"
    using Cons [of w1] by blast
  have "create_labels sys B url (i # ns) w = (Inr (unit # labels), w2)"
    using u r by simp
  then show ?case
    using r1 r2 r3 r4 r5 h q d p get_font_files [OF g] by simp
qed

lemma size_of_paste_labels: "size_of B (paste_labels B strip x ls) = size_of B strip"
  by (induction ls arbitrary: strip x) simp_all




lemma assemble_strip_size:
  "width B (assemble_strip B labels) =
     sum_list (map (width B) labels) + int (length labels) * LABEL_GAP \<and>
   height B (assemble_strip B labels) = TAPE_HEIGHT"
  by (simp add: assemble_strip_def Let_def width_def height_def size_of_paste_labels)

lemma generate_label_strip_saved:
  assumes "create_labels sys B url [start_id..end_id] w = (Inr labels, w1)"
    and "save_ok sys (image_filename output_filename)"
  shows "\<exists>w2. generate_label_strip sys B start_id end_id url print_label output_filename w =
           (Inr (), w2) \<and>
         files w2 = (files w1)(image_filename output_filename \<mapsto> assemble_strip B labels) \<and>
         (print_label \<longrightarrow>
            subprocesses w2 = subprocesses w1 @
              [[''ptouch-print'', ''--image'', image_filename output_filename]] \<and>
            stdout w2 = stdout w1 @
              [''Successfully created '' @ image_filename output_filename,
               (case ptouch_print sys (image_filename output_filename) of
                  None \<Rightarrow> ''Successfully printed '' @ image_filename output_filename
                | Some e \<Rightarrow> ''Error printing '' @ image_filename output_filename @ '': '' @
                    error_text e)])"
  using assms
  by (simp add: generate_label_strip_def Let_def split: option.splits)

lemma upto_1000_1000: "[1000..1000] = [1000::int]"
  by (simp add: upto.simps)


lemma sample_get_font:
  "get_font sample_system n w =
     (DefaultFont, w\<lparr>subprocesses := subprocesses w @
        [[''fc-match'', ''-f'', ''%{file}'', ''sans:style=ExtraBold:weight=200:bold'']]\<rparr>)"
  by (simp add: get_font_def sample_system_def Let_def)

lemma asset_id_1000: "asset_id 1000 = ''001-000''"
  by code_simp

lemma sample_widths:
  "width sample_backend (make_qr_img url aid) = 74"
  "width sample_backend (make_text_img sample_backend f line0 line1) = 90"
  by (simp_all add: width_def make_qr_img_def make_text_img_def Let_def sample_backend_def
      QR_VERSION_def QR_BOX_SIZE_def QR_BORDER_def)

lemma sample_label_1000:
  "\<exists>unit w1. create_label sample_system sample_backend 1000 url w = (Inr unit, w1) \<and>
     width sample_backend unit = 170"
proof -
  have p: "split_on CHR ''-'' (asset_id 1000) = ''001'' # ''000'' # []"
    by (simp add: asset_id_1000)
  from create_label_ok [OF p sample_get_font [of FONT_SIZE w], of sample_backend url]
  show ?thesis
    by (auto simp: sample_widths ELEMENT_GAP_def)
qed

text \<open>
  Claim C1 as stated, with \<open>count - 1\<close> gaps, fails on the strip of the single label
  1000: the strip is one \<open>LABEL_GAP\<close> wider than the label.
\<close>

theorem strip_width_count_minus_one_counterexample:
  "labels_of sample_system sample_backend ''https://box.example.com/a/'' 1000 1000 empty_world \<noteq> [] \<and>
   width sample_backend (assemble_strip sample_backend
     (labels_of sample_system sample_backend ''https://box.example.com/a/'' 1000 1000 empty_world))
   \<noteq> sum_list (map (width sample_backend)
         (labels_of sample_system sample_backend ''https://box.example.com/a/'' 1000 1000 empty_world))
       + (int (length
         (labels_of sample_system sample_backend ''https://box.example.com/a/'' 1000 1000 empty_world)) - 1)
         * LABEL_GAP"
proof -
  obtain unit w1 where
    "create_label sample_system sample_backend 1000 ''https://box.example.com/a/'' empty_world
       = (Inr unit, w1)"
    using sample_label_1000 by blast
  then have "labels_of sample_system sample_backend ''https://box.example.com/a/'' 1000 1000 empty_world
      = [unit]"
    by (simp add: labels_of_def upto_1000_1000)
  then show ?thesis
    using assemble_strip_size [of sample_backend "[unit]"] by (simp add: LABEL_GAP_def)
qed

text \<open>
  Claim C1, amended. For a range with \<open>start_id \<le> end_id\<close> the labels are not empty, and
  the strip saved has the width of all the labels plus \<open>LABEL_GAP\<close> times their number
  (a gap follows every label, the last one too) and the height \<open>TAPE_HEIGHT\<close>.
\<close>

theorem strip_size:
  assumes "start_id \<le> end_id" and "save_ok sys (image_filename output_filename)"
  shows "\<exists>labels w1 w2 strip.
     create_labels sys B url [start_id..end_id] w = (Inr labels, w1) \<and>
     length labels = nat (end_id - start_id + 1) \<and> labels \<noteq> [] \<and>
     generate_label_strip sys B start_id end_id url print_label output_filename w = (Inr (), w2) \<and>
     files w2 (image_filename output_filename) = Some strip \<and>
     width B strip = sum_list (map (width B) labels) + int (length labels) * LABEL_GAP \<and>
     height B strip = TAPE_HEIGHT"
proof -
  obtain labels w1 where c: "create_labels sys B url [start_id..end_id] w = (Inr labels, w1)"
      and n: "length labels = length [start_id..end_id]"
    using create_labels_ok [of sys B url "[start_id..end_id]" w] by blast
  have len: "length labels = nat (end_id - start_id + 1)"
    using n by simp
  then have ne: "labels \<noteq> []"
    using assms(1) by auto
  obtain w2 where g: "generate_label_strip sys B start_id end_id url print_label output_filename w
        = (Inr (), w2)"
      and f: "files w2 = (files w1)(image_filename output_filename \<mapsto> assemble_strip B labels)"
    using generate_label_strip_saved [OF c assms(2), of print_label] by blast
  have "files w2 (image_filename output_filename) = Some (assemble_strip B labels)"
    using f by simp
  then show ?thesis
    using c len ne g assemble_strip_size [of B labels] by blast
qed

theorem strip_size_witness:
  "(1000::int) \<le> 1002 \<and> save_ok sample_system (image_filename None) \<and>
   (\<exists>labels w1 w2 strip.
     create_labels sample_system sample_backend ''https://box.example.com/a/'' [1000..1002]
       empty_world = (Inr labels, w1) \<and>
     length labels = 3 \<and> labels \<noteq> [] \<and>
     generate_label_strip sample_system sample_backend 1000 1002 ''https://box.example.com/a/''
       False None empty_world = (Inr (), w2) \<and>
     files w2 ''asset_labels.png'' = Some strip \<and>
     width sample_backend strip = sum_list (map (width sample_backend) labels) + 3 * LABEL_GAP \<and>
     height sample_backend strip = 76)"
proof -
  have a: "(1000::int) \<le> 1002" by simp
  have b: "save_ok sample_system (image_filename None)"
    by (simp add: sample_system_def)
  have n: "image_filename None = ''asset_labels.png''"
    by (simp add: image_filename_def)
  from strip_size [OF a b, of sample_backend "''https://box.example.com/a/''" empty_world False]
  obtain labels w1 w2 strip where
    "create_labels sample_system sample_backend ''https://box.example.com/a/'' [1000..1002]
       empty_world = (Inr labels, w1)"
    "length labels = nat (1002 - 1000 + 1)" "labels \<noteq> []"
    "generate_label_strip sample_system sample_backend 1000 1002 ''https://box.example.com/a/''
       False None empty_world = (Inr (), w2)"
    "files w2 (image_filename None) = Some strip"
    "width sample_backend strip =
       sum_list (map (width sample_backend) labels) + int (length labels) * LABEL_GAP"
    "height sample_backend strip = TAPE_HEIGHT"
    by blast
  then show ?thesis
    using a b by (auto simp: n TAPE_HEIGHT_def)
qed


text \<open>
  Claim C6. When both asset IDs are read and the start number is greater than the end
  number, \<^verbatim>\<open>main\<close> ends with a usage error (exit status 2) and leaves the files, the
  list of started processes and the output as they were.
\<close>

theorem start_after_end_is_usage_error:
  assumes "parse_args sys c = Inr a"
    and "asset_id_to_int (arg_start a) = Inr start_int"
    and "asset_id_to_int (arg_end a) = Inr end_int"
    and "start_int > end_int"
  shows "main sys B c w =
           (UsageError (if truthy (arg_domain a)
                        then StartAfterEnd (arg_start a) (arg_end a) else DomainRequired), w) \<and>
         exit_code (fst (main sys B c w)) = 2 \<and>
         files (snd (main sys B c w)) = files w \<and>
         subprocesses (snd (main sys B c w)) = subprocesses w \<and>
         stdout (snd (main sys B c w)) = stdout w"
  using assms by (simp add: main_def)

theorem start_after_end_is_usage_error_witness:
  "asset_id_to_int ''001-005'' = Inr 1005 \<and> asset_id_to_int ''001-002'' = Inr 1002 \<and>
   (1005::int) > 1002 \<and>
   main sample_system sample_backend reversed_cli empty_world =
     (UsageError (StartAfterEnd ''001-005'' ''001-002''), empty_world) \<and>
   exit_code (fst (main sample_system sample_backend reversed_cli empty_world)) = 2 \<and>
   files (snd (main sample_system sample_backend reversed_cli empty_world)) = Map.empty"
proof -
  let ?a = "\<lparr>arg_start = ''001-005'', arg_end = ''001-002'',
             arg_domain = Some ''box.example.com'', arg_print = True, arg_output = None\<rparr>"
  have p: "parse_args sample_system reversed_cli = Inr ?a"
    by (simp add: parse_args_def reversed_cli_def)
  have s: "asset_id_to_int (arg_start ?a) = Inr 1005"
    and e: "asset_id_to_int (arg_end ?a) = Inr 1002"
    by code_simp+
  have g: "(1005::int) > 1002" by simp
  show ?thesis
    using start_after_end_is_usage_error [OF p s e g, of sample_backend empty_world] s e
    by (simp add: truthy_def empty_world_def)
qed

text \<open>
  Claim C8. With no \<^verbatim>\<open>--domain\<close> option and no \<^verbatim>\<open>HOMEBOX_DOMAIN\<close> in the environment,
  \<^verbatim>\<open>main\<close> ends with a usage error (exit status 2) before anything is rendered: no file
  is written, no process is started (the font lookup of the renderer included) and nothing
  is printed.
\<close>

theorem missing_domain_is_usage_error:
  assumes "cli_domain c = None" and "getenv_HOMEBOX_DOMAIN sys = None"
  shows "(\<exists>u. main sys B c w = (UsageError u, w)) \<and>
         (cli_start c \<noteq> None \<and> cli_end c \<noteq> None \<longrightarrow>
            main sys B c w = (UsageError DomainRequired, w)) \<and>
         exit_code (fst (main sys B c w)) = 2 \<and>
         files (snd (main sys B c w)) = files w \<and>
         subprocesses (snd (main sys B c w)) = subprocesses w \<and>
         stdout (snd (main sys B c w)) = stdout w"
  using assms
  by (cases "cli_start c"; cases "cli_end c") (simp_all add: main_def parse_args_def truthy_def)

theorem missing_domain_is_usage_error_witness:
  "cli_domain no_domain_cli = None \<and> getenv_HOMEBOX_DOMAIN sample_system = None \<and>
   main sample_system sample_backend no_domain_cli empty_world =
     (UsageError DomainRequired, empty_world) \<and>
   exit_code (fst (main sample_system sample_backend no_domain_cli empty_world)) = 2 \<and>
   subprocesses (snd (main sample_system sample_backend no_domain_cli empty_world)) = []"
proof -
  have d: "cli_domain no_domain_cli = None"
    by (simp add: no_domain_cli_def)
  have g: "getenv_HOMEBOX_DOMAIN sample_system = None"
    by (simp add: sample_system_def)
  have "cli_start no_domain_cli \<noteq> None \<and> cli_end no_domain_cli \<noteq> None"
    by (simp add: no_domain_cli_def)
  then show ?thesis
    using missing_domain_is_usage_error [OF d g, of sample_backend empty_world] d g
    by (simp add: empty_world_def)
qed

text \<open>
  Claim C7. When the image can be saved and \<^verbatim>\<open>ptouch-print\<close> then fails, with a
  non-zero exit or a missing binary, the failure is reported on the output, the saved image
  is still there and \<^verbatim>\<open>main\<close> ends with exit status 0.
\<close>

theorem print_failure_is_not_fatal:
  assumes "parse_args sys c = Inr a"
    and "truthy (arg_domain a)"
    and "asset_id_to_int (arg_start a) = Inr start_int"
    and "asset_id_to_int (arg_end a) = Inr end_int"
    and "start_int \<le> end_int"
    and "arg_print a"
    and "save_ok sys (image_filename (arg_output a))"
    and "ptouch_print sys (image_filename (arg_output a)) = Some err"
  shows "\<exists>w1 strip.
           main sys B c w = (Success, w1) \<and>
           exit_code (fst (main sys B c w)) = 0 \<and>
           files w1 (image_filename (arg_output a)) = Some strip \<and>
           last (subprocesses w1) = [''ptouch-print'', ''--image'', image_filename (arg_output a)] \<and>
           last (stdout w1) =
             ''Error printing '' @ image_filename (arg_output a) @ '': '' @ error_text err"
proof -
  let ?url = "''https://'' @ the (arg_domain a) @ ''/a/''"
  obtain labels w0 where c: "create_labels sys B ?url [start_int..end_int] w = (Inr labels, w0)"
    using create_labels_ok [of sys B ?url "[start_int..end_int]" w] by blast
  obtain w1 where g: "generate_label_strip sys B start_int end_int ?url True (arg_output a) w
        = (Inr (), w1)"
      and f: "files w1 = (files w0)(image_filename (arg_output a) \<mapsto> assemble_strip B labels)"
      and p: "subprocesses w1 = subprocesses w0 @
              [[''ptouch-print'', ''--image'', image_filename (arg_output a)]]"
      and o: "stdout w1 = stdout w0 @
              [''Successfully created '' @ image_filename (arg_output a),
               ''Error printing '' @ image_filename (arg_output a) @ '': '' @ error_text err]"
    using generate_label_strip_saved [OF c assms(7), of True] assms(8) by auto
  have m: "main sys B c w = (Success, w1)"
    using assms g by (simp add: main_def)
  have "files w1 (image_filename (arg_output a)) = Some (assemble_strip B labels)"
    using f by simp
  then show ?thesis
    using m p o by simp
qed

theorem print_failure_is_not_fatal_witness:
  "ptouch_print sample_system ''asset_labels.png'' = Some (CalledProcessError ''exit status 1'') \<and>
   (\<exists>w1 strip.
      main sample_system sample_backend sample_cli empty_world = (Success, w1) \<and>
      exit_code (fst (main sample_system sample_backend sample_cli empty_world)) = 0 \<and>
      files w1 ''asset_labels.png'' = Some strip \<and>
      last (subprocesses w1) = [''ptouch-print'', ''--image'', ''asset_labels.png''] \<and>
      last (stdout w1) = ''Error printing asset_labels.png: exit status 1'')"
proof -
  let ?a = "\<lparr>arg_start = ''001-000'', arg_end = ''001-002'',
             arg_domain = Some ''box.example.com'', arg_print = True, arg_output = None\<rparr>"
  have n: "image_filename (arg_output ?a) = ''asset_labels.png''"
    by (simp add: image_filename_def)
  have p: "parse_args sample_system sample_cli = Inr ?a"
    by (simp add: parse_args_def sample_cli_def)
  have t: "truthy (arg_domain ?a)"
    by (simp add: truthy_def)
  have s: "asset_id_to_int (arg_start ?a) = Inr 1000"
    and e: "asset_id_to_int (arg_end ?a) = Inr 1002"
    by code_simp+
  have r: "(1000::int) \<le> 1002" by simp
  have pr: "arg_print ?a" by simp
  have sv: "save_ok sample_system (image_filename (arg_output ?a))"
    by (simp add: sample_system_def)
  have pt: "ptouch_print sample_system (image_filename (arg_output ?a))
      = Some (CalledProcessError ''exit status 1'')"
    by (simp add: sample_system_def)
  show ?thesis
    using print_failure_is_not_fatal [OF p t s e r pr sv pt, of sample_backend empty_world] pt
    unfolding n by simp
qed

theorem create_label_size_witness:
  "\<exists>unit w1. create_label sample_system sample_backend 1000 ''https://box.example.com/a/''
       empty_world = (Inr unit, w1) \<and>
     width sample_backend unit = 74 + 6 + 90 \<and> height sample_backend unit = 76"
proof -
  have p: "split_on CHR ''-'' (asset_id 1000) = [''001'', ''000'']"
    by (simp add: asset_id_1000)
  from create_label_size [of sample_system sample_backend 1000 "''https://box.example.com/a/''"
      empty_world]
  show ?thesis
    unfolding p by (auto simp: sample_widths ELEMENT_GAP_def TAPE_HEIGHT_def)
qed

end
